theory Spec2Isabelle
  imports Main
begin

section \<open>Values, exceptions and outcomes\<close>

text \<open>
  The driver is Python: preference values and the entries of the legacy
  \<open>extra_customization\<close> list are untyped.  \<open>pyval\<close> carries the shapes the driver
  distinguishes: \<open>isinstance(v, str)\<close> holds exactly for \<open>PStr\<close>, and \<open>truthy\<close> is Python's
  truth value of an object.
\<close>

datatype pyval = PNone | PBool bool | PInt int | PStr string | PList "pyval list"

fun truthy :: "pyval \<Rightarrow> bool" where
  "truthy PNone = False"
| "truthy (PBool b) = b"
| "truthy (PInt i) = (i \<noteq> 0)"
| "truthy (PStr s) = (s \<noteq> [])"
| "truthy (PList xs) = (xs \<noteq> [])"

fun isinstance_str :: "pyval \<Rightarrow> bool" where
  "isinstance_str (PStr s) = True"
| "isinstance_str v = False"

text \<open>
  An exception object has a class and may or may not have a \<open>message\<close> attribute.  Under
  Python 2 every \<open>BaseException\<close> has one; under Python 3 only classes that set it
  themselves do (the driver's own \<open>InvalidEPub\<close> does, in its constructor).
\<close>

datatype exc_class = DRMError | KeyError | AttributeError | InvalidEPub | OtherError

datatype exc = Exc (exc_cls: exc_class) (message: "string option")

datatype 'a outcome = Returned 'a | Raised exc

text \<open>An exception raised by the interpreter itself (a failed \<open>del d[k]\<close>, a missing attribute).\<close>

definition builtin_exc :: "bool \<Rightarrow> exc_class \<Rightarrow> string \<Rightarrow> exc" where
  "builtin_exc py2 c txt = Exc c (if py2 then Some txt else None)"

section \<open>Strings\<close>

definition EPUB_EXT :: string where
  "EPUB_EXT = ''.epub''"

definition KEPUB_EXT :: string where
  "KEPUB_EXT = ''.kepub''"

text \<open>\<open>s.endswith(suf)\<close>.\<close>

definition endswith :: "string \<Rightarrow> string \<Rightarrow> bool" where
  "endswith s suf = (length suf \<le> length s \<and> drop (length s - length suf) s = suf)"

text \<open>\<open>s[:-n]\<close> for \<open>n > 0\<close>: all but the last \<open>n\<close> characters, empty when \<open>s\<close> is shorter.\<close>

definition slice_off :: "string \<Rightarrow> nat \<Rightarrow> string" where
  "slice_off s n = take (length s - n) s"

section \<open>Settings and their migration\<close>

record settings =
  extra_features :: pyval
  upload_encumbered :: pyval
  skip_failed :: pyval
  hyphenate :: pyval
  smarten_punctuation :: pyval
  clean_markup :: pyval
  full_page_numbers :: pyval
  disable_hyphenation :: pyval
  file_copy_dir :: pyval
  extra_customization :: "pyval list"

text \<open>
  The option indices of \<open>migrate_old_settings\<close>.  The source counts them with
  \<open>count_options\<close>, which starts at 0 and is incremented after each index is taken but the
  last: eight increments, so \<open>count_options\<close> is 8 where it is used.
\<close>

definition opt_extra_features :: nat where "opt_extra_features = 0"
definition opt_upload_encumbered :: nat where "opt_upload_encumbered = opt_extra_features + 1"
definition opt_skip_failed :: nat where "opt_skip_failed = opt_upload_encumbered + 1"
definition opt_hypnenate :: nat where "opt_hypnenate = opt_skip_failed + 1"
definition opt_smarten_punctuation :: nat where "opt_smarten_punctuation = opt_hypnenate + 1"
definition opt_clean_markup :: nat where "opt_clean_markup = opt_smarten_punctuation + 1"
definition opt_full_page_numbers :: nat where "opt_full_page_numbers = opt_clean_markup + 1"
definition opt_file_copy_dir :: nat where "opt_file_copy_dir = opt_full_page_numbers + 1"
definition opt_disable_hyphenation :: nat where "opt_disable_hyphenation = opt_file_copy_dir + 1"
definition count_options :: nat where "count_options = opt_disable_hyphenation"

text \<open>
  \<open>xs[i]\<close> for \<open>i \<ge> 0\<close>; \<open>None\<close> is the \<open>IndexError\<close> Python raises out of range.  Every
  subscript of \<open>migrate_old_settings\<close> sits in its own \<open>try\<close> whose handler is
  \<open>except IndexError: pass\<close>, which \<open>try_assign\<close> models: the assignment is skipped.
\<close>

definition getitem :: "pyval list \<Rightarrow> nat \<Rightarrow> pyval option" where
  "getitem xs i = (if i < length xs then Some (xs ! i) else None)"

definition try_assign ::
    "pyval list \<Rightarrow> nat \<Rightarrow> (pyval \<Rightarrow> settings \<Rightarrow> settings) \<Rightarrow> settings \<Rightarrow> settings" where
  "try_assign xs i assign s = (case getitem xs i of None \<Rightarrow> s | Some v \<Rightarrow> assign v s)"

text \<open>
  \<open>migrate_old_settings\<close>, from the line after the call of the base class's migration:
  the argument is the settings object that call returned.  The statements run in the source's
  order (\<open>file_copy_dir\<close> before \<open>full_page_numbers\<close>).  The body raises nothing but the
  \<open>IndexError\<close>s it handles, so the model returns the settings object.
\<close>

definition migrate_old_settings :: "settings \<Rightarrow> settings" where
  "migrate_old_settings settings =
    (let ec = extra_customization settings in
     if length ec \<ge> count_options then
       (let s1 = try_assign ec opt_extra_features (\<lambda>v s. s\<lparr>extra_features := v\<rparr>) settings;
            s2 = try_assign ec opt_upload_encumbered (\<lambda>v s. s\<lparr>upload_encumbered := v\<rparr>) s1;
            s3 = try_assign ec opt_skip_failed (\<lambda>v s. s\<lparr>skip_failed := v\<rparr>) s2;
            s4 = try_assign ec opt_hypnenate (\<lambda>v s. s\<lparr>hyphenate := v\<rparr>) s3;
            s5 = try_assign ec opt_smarten_punctuation (\<lambda>v s. s\<lparr>smarten_punctuation := v\<rparr>) s4;
            s6 = try_assign ec opt_clean_markup (\<lambda>v s. s\<lparr>clean_markup := v\<rparr>) s5;
            s7 = try_assign ec opt_file_copy_dir
                   (\<lambda>v s. if \<not> isinstance_str v then s\<lparr>file_copy_dir := PNone\<rparr>
                          else s\<lparr>file_copy_dir := v\<rparr>) s6;
            s8 = try_assign ec opt_full_page_numbers (\<lambda>v s. s\<lparr>full_page_numbers := v\<rparr>) s7;
            s9 = try_assign ec opt_disable_hyphenation (\<lambda>v s. s\<lparr>disable_hyphenation := v\<rparr>) s8
        in s9\<lparr>extra_customization := drop (count_options + 1) ec\<rparr>)
     else settings)"

section \<open>The driver object\<close>

text \<open>
  \<open>self\<close>: the preferences read by the properties \<open>extra_features\<close>, \<open>skip_failed\<close>, ...
  (each is \<open>get_pref\<close> of the field of that name) and the class attribute
  \<open>skip_renaming_files\<close>.
\<close>

record driver =
  prefs :: settings
  skip_renaming_files :: "string set"

record metadata =
  uuid :: string
  title :: string
  authors :: "string list"

section \<open>File names on the device\<close>

text \<open>\<open>filename_callback(self, path, mi)\<close>; it only reads \<open>skip_renaming_files\<close>.\<close>

definition filename_callback :: "driver \<Rightarrow> string \<Rightarrow> metadata \<Rightarrow> string" where
  "filename_callback self path mi =
    (if truthy (extra_features (prefs self)) then
       (if endswith path KEPUB_EXT then path @ EPUB_EXT
        else if endswith path EPUB_EXT \<and> uuid mi \<notin> skip_renaming_files self then
          slice_off path (length EPUB_EXT) @ KEPUB_EXT @ EPUB_EXT
        else path)
     else path)"

text \<open>The defaults \<open>_config\<close> registers for the nine options.\<close>

definition config_defaults :: "pyval list \<Rightarrow> settings" where
  "config_defaults ec =
    \<lparr>extra_features = PBool True, upload_encumbered = PBool False, skip_failed = PBool False,
     hyphenate = PBool False, smarten_punctuation = PBool False, clean_markup = PBool False,
     full_page_numbers = PBool False, disable_hyphenation = PBool False,
     file_copy_dir = PStr [], extra_customization = ec\<rparr>"

section \<open>Preparing a book: \<open>_modify_epub\<close>\<close>

text \<open>
  A container handle.  Reading the property \<open>is_drm_encumbered\<close> runs code of the container
  class, so it yields a value or raises.
\<close>

record container =
  container_path :: string
  is_drm_encumbered :: "bool outcome"

text \<open>
  The file \<open>driveinfo.calibre\<close> on the device: absent, failing to open, read or parse, or
  holding a JSON object.
\<close>

type_synonym json_object = "string \<rightharpoonup> string"

datatype details = NoFile | Unreadable exc | Parsed json_object

text \<open>
  What the collaborators of \<open>_modify_epub\<close> do when they are called: the interpreter
  version, the constructor \<open>KEPubContainer(infile, log)\<close>, the details file, the temporary
  file and \<open>copy_file_to_container\<close>, the transformer \<open>modify_epub\<close> of the plugin's
  \<open>common\<close> module, the base class's \<open>_modify_epub\<close>, the copy of the source file into
  \<open>file_copy_dir\<close> (\<open>expanduser\<close>, \<open>create_upload_path\<close>, \<open>shutil.copy\<close>) and
  \<open>container.commit\<close>.  \<open>None\<close> in an \<open>exc option\<close> is a call that returns normally.
  \<open>version_str\<close>, \<open>options_str\<close> and \<open>utcnow_ctime\<close> are the three strings stored in the
  record: the joined \<open>self.version\<close>, \<open>str(opts.extra_customization)\<close> of the
  \<open>self.settings()\<close> call of line 200 (taken to return) and the clock.
\<close>

record world =
  python2 :: bool
  new_container :: "string \<Rightarrow> container outcome"
  details_file :: details
  version_str :: string
  options_str :: string
  utcnow_ctime :: string
  copy_file_to_container :: "exc option"
  run_modify_epub :: "exc option"
  base_modify_epub :: "string \<Rightarrow> metadata \<Rightarrow> container option \<Rightarrow> bool outcome"
  copy_original :: "string \<Rightarrow> pyval \<Rightarrow> metadata \<Rightarrow> exc option"
  commit :: "string \<Rightarrow> exc option"

text \<open>The calls \<open>_modify_epub\<close> makes, in order; a call is recorded when it is made.\<close>

datatype event =
    CallCopyToContainer json_object string string
  | CallModifyEpub string "(string \<times> pyval) list"
  | CallBase string "container option"
  | CallCopyOriginal string pyval
  | CallCommit string

record result =
  retval :: "bool outcome"
  skip_set :: "string set"
  calls :: "event list"

text \<open>
  The probe of lines 212 to 223: a new container when none was passed, the property
  \<open>is_drm_encumbered\<close> of the one passed otherwise; \<open>except DRMError\<close> marks the book
  encumbered, any other exception leaves \<open>_modify_epub\<close>.
\<close>

datatype probe = Probed "container option" bool | ProbeRaised exc

definition probe_drm :: "world \<Rightarrow> string \<Rightarrow> container option \<Rightarrow> probe" where
  "probe_drm w infile cont =
    (case cont of
       None \<Rightarrow>
         (case new_container w infile of
            Returned c \<Rightarrow> Probed (Some c) False
          | Raised e \<Rightarrow> if exc_cls e = DRMError then Probed None True else ProbeRaised e)
     | Some c \<Rightarrow>
         (case is_drm_encumbered c of
            Returned b \<Rightarrow> Probed (Some c) b
          | Raised e \<Rightarrow> if exc_cls e = DRMError then Probed (Some c) True else ProbeRaised e))"

text \<open>The loop \<open>for prop in (...): del d[prop]\<close>; a missing key raises \<open>KeyError\<close>.\<close>

definition transient_props :: "string list" where
  "transient_props = [''device_store_uuid'', ''prefix'', ''last_library_uuid'', ''location_code'']"

fun del_props :: "bool \<Rightarrow> string list \<Rightarrow> json_object \<Rightarrow> json_object outcome" where
  "del_props py2 [] d = Returned d"
| "del_props py2 (p # ps) d =
    (case d p of
       None \<Rightarrow> Raised (builtin_exc py2 KeyError p)
     | Some v \<Rightarrow> del_props py2 ps (d(p := None)))"

definition stamp :: "world \<Rightarrow> json_object \<Rightarrow> json_object" where
  "stamp w d =
    d(''kobotouchextended_version'' \<mapsto> version_str w,
      ''kobotouchextended_options'' \<mapsto> options_str w,
      ''kobotouchextended_currenttime'' \<mapsto> utcnow_ctime w)"

definition driver_info :: "world \<Rightarrow> json_object outcome" where
  "driver_info w =
    (case details_file w of
       NoFile \<Rightarrow> Returned (stamp w Map.empty)
     | Unreadable e \<Rightarrow> Raised e
     | Parsed d \<Rightarrow>
         (case del_props (python2 w) transient_props d of
            Raised e \<Rightarrow> Raised e
          | Returned d' \<Rightarrow> Returned (stamp w d')))"

text \<open>\<open>a and not b\<close> on Python objects: \<open>a\<close> itself when it is false.\<close>

definition and_not :: "pyval \<Rightarrow> pyval \<Rightarrow> pyval" where
  "and_not a b = (if truthy a then PBool (\<not> truthy b) else a)"

definition transform_opts :: "driver \<Rightarrow> (string \<times> pyval) list" where
  "transform_opts self =
    [(''clean_markup'', clean_markup (prefs self)),
     (''hyphenate'', and_not (hyphenate (prefs self)) (disable_hyphenation (prefs self))),
     (''no-hyphens'', disable_hyphenation (prefs self)),
     (''smarten_punctuation'', smarten_punctuation (prefs self)),
     (''extended_kepub_features'', extra_features (prefs self))]"

text \<open>
  The body of the \<open>try\<close> of lines 234 to 285: the exception that ends it, if any, and the
  calls made until then.
\<close>

definition try_body :: "world \<Rightarrow> driver \<Rightarrow> string \<Rightarrow> exc option \<times> event list" where
  "try_body w self infile =
    (case driver_info w of
       Raised e \<Rightarrow> (Some e, [])
     | Returned d \<Rightarrow>
         (let c1 = [CallCopyToContainer d ''driverinfo.kte'' ''application/json''] in
          case copy_file_to_container w of
            Some e \<Rightarrow> (Some e, c1)
          | None \<Rightarrow>
              (let c2 = c1 @ [CallModifyEpub infile (transform_opts self)] in
               case run_modify_epub w of
                 Some e \<Rightarrow> (Some e, c2)
               | None \<Rightarrow> (None, c2))))"

text \<open>
  The handler \<open>except Exception as e\<close> of lines 286 to 299.  Its first statement formats
  \<open>e.message\<close> into the log line, which raises \<open>AttributeError\<close> when \<open>e\<close> has no such
  attribute; then comes the \<open>skip_failed\<close> test.
\<close>

definition handler ::
    "world \<Rightarrow> driver \<Rightarrow> string \<Rightarrow> metadata \<Rightarrow> container option \<Rightarrow> exc \<Rightarrow> event list \<Rightarrow> result" where
  "handler w self infile md cont e cs =
    (case message e of
       None \<Rightarrow>
         \<lparr>retval = Raised (builtin_exc (python2 w) AttributeError ''message''),
          skip_set = skip_renaming_files self, calls = cs\<rparr>
     | Some m \<Rightarrow>
         if \<not> truthy (skip_failed (prefs self)) then
           \<lparr>retval = Raised e, skip_set = skip_renaming_files self, calls = cs\<rparr>
         else
           \<lparr>retval = base_modify_epub w infile md cont,
            skip_set = insert (uuid md) (skip_renaming_files self),
            calls = cs @ [CallBase infile cont]\<rparr>)"

text \<open>Lines 301 to 319, after the \<open>try\<close> has ended without an exception.\<close>

definition finish ::
    "world \<Rightarrow> driver \<Rightarrow> string \<Rightarrow> metadata \<Rightarrow> container option \<Rightarrow> event list \<Rightarrow> result" where
  "finish w self infile md cont cs =
    (let skip = (if \<not> truthy (extra_features (prefs self))
                 then insert (uuid md) (skip_renaming_files self)
                 else skip_renaming_files self);
         dpath = (if truthy (file_copy_dir (prefs self)) then file_copy_dir (prefs self)
                  else PStr []);
         copied = (if dpath \<noteq> PStr [] then copy_original w infile dpath md else None);
         cs1 = (if dpath \<noteq> PStr [] then cs @ [CallCopyOriginal infile dpath] else cs)
     in case copied of
          Some e \<Rightarrow> \<lparr>retval = Raised e, skip_set = skip, calls = cs1\<rparr>
        | None \<Rightarrow>
            (let cs2 = cs1 @ [CallBase infile cont] in
             case base_modify_epub w infile md cont of
               Raised e \<Rightarrow> \<lparr>retval = Raised e, skip_set = skip, calls = cs2\<rparr>
             | Returned r \<Rightarrow>
                 if r then
                   (case commit w infile of
                      Some e \<Rightarrow>
                        \<lparr>retval = Raised e, skip_set = skip, calls = cs2 @ [CallCommit infile]\<rparr>
                    | None \<Rightarrow>
                        \<lparr>retval = Returned r, skip_set = skip, calls = cs2 @ [CallCommit infile]\<rparr>)
                 else \<lparr>retval = Returned r, skip_set = skip, calls = cs2\<rparr>))"

text \<open>
  \<open>_modify_epub(self, infile, metadata, container)\<close> (an Isabelle name cannot start with an
  underscore).  The result holds the value returned or the exception raised, the set
  \<open>skip_renaming_files\<close> as the call leaves it, and the calls made.
\<close>

definition modify_epub_ext ::
    "world \<Rightarrow> driver \<Rightarrow> string \<Rightarrow> metadata \<Rightarrow> container option \<Rightarrow> result" where
  "modify_epub_ext w self infile md cont =
    (if \<not> endswith infile EPUB_EXT then
       \<lparr>retval = base_modify_epub w infile md cont,
        skip_set = (if \<not> endswith infile KEPUB_EXT
                    then insert (uuid md) (skip_renaming_files self)
                    else skip_renaming_files self),
        calls = [CallBase infile cont]\<rparr>
     else
       (case probe_drm w infile cont of
          ProbeRaised e \<Rightarrow>
            \<lparr>retval = Raised e, skip_set = skip_renaming_files self, calls = []\<rparr>
        | Probed cont' is_encumbered_book \<Rightarrow>
            if is_encumbered_book then
              (if truthy (upload_encumbered (prefs self)) then
                 \<lparr>retval = base_modify_epub w infile md cont',
                  skip_set = insert (uuid md) (skip_renaming_files self),
                  calls = [CallBase infile cont']\<rparr>
               else
                 \<lparr>retval = Returned False,
                  skip_set = insert (uuid md) (skip_renaming_files self),
                  calls = []\<rparr>)
            else
              (case try_body w self infile of
                 (Some e, cs) \<Rightarrow> handler w self infile md cont' e cs
               | (None, cs) \<Rightarrow> finish w self infile md cont' cs)))"

text \<open>
  What the probe of lines 212 to 223 detects: constructing the container raises
  \<open>DRMError\<close>, or the container passed in reports \<open>is_drm_encumbered\<close> (or raises
  \<open>DRMError\<close> when asked).  It does not ask a container it has constructed itself.
\<close>

definition drm_signalled :: "world \<Rightarrow> string \<Rightarrow> container option \<Rightarrow> bool" where
  "drm_signalled w infile cont =
    (case cont of
       None \<Rightarrow>
         (case new_container w infile of
            Returned c \<Rightarrow> False
          | Raised e \<Rightarrow> exc_cls e = DRMError)
     | Some c \<Rightarrow>
         (case is_drm_encumbered c of
            Returned b \<Rightarrow> b
          | Raised e \<Rightarrow> exc_cls e = DRMError))"

text \<open>
  The book is DRM-encumbered, as the container signals it: opening it raises \<open>DRMError\<close>,
  or the container of the book, the one passed in or the one \<open>KEPubContainer(infile, log)\<close>
  constructs, reports \<open>is_drm_encumbered\<close>.
\<close>

definition reports_encumbered :: "container \<Rightarrow> bool" where
  "reports_encumbered c =
    (case is_drm_encumbered c of
       Returned b \<Rightarrow> b
     | Raised e \<Rightarrow> exc_cls e = DRMError)"

definition drm_encumbered :: "world \<Rightarrow> string \<Rightarrow> container option \<Rightarrow> bool" where
  "drm_encumbered w infile cont =
    (case cont of
       None \<Rightarrow>
         (case new_container w infile of
            Returned c \<Rightarrow> reports_encumbered c
          | Raised e \<Rightarrow> exc_cls e = DRMError)
     | Some c \<Rightarrow> reports_encumbered c)"

text \<open>
  The optional copy of the source file, lines 304 to 312: made when \<open>file_copy_dir\<close> is a
  true value.
\<close>

definition copy_step :: "world \<Rightarrow> driver \<Rightarrow> string \<Rightarrow> metadata \<Rightarrow> exc option" where
  "copy_step w self infile md =
    (if truthy (file_copy_dir (prefs self))
     then copy_original w infile (file_copy_dir (prefs self)) md else None)"

section \<open>Image ids: \<open>sync_booklists\<close>\<close>

record book =
  application_id :: "int option"
  contentID :: string

text \<open>\<open>__rows_needing_imageid\<close>: the dictionary built from the rows the query returns.\<close>

definition rows_needing_imageid :: "string list \<Rightarrow> (string \<rightharpoonup> nat)" where
  "rows_needing_imageid rows = fold (\<lambda>row d. d(row \<mapsto> 1)) rows Map.empty"

text \<open>
  The two nested \<open>for\<close> loops that fill \<open>nulls\<close>.  \<open>imageid_from_contentid\<close> is a method of
  the base class, taken as a parameter.
\<close>

definition collect_nulls ::
    "(string \<Rightarrow> string) \<Rightarrow> (string \<rightharpoonup> nat) \<Rightarrow> book list list \<Rightarrow> (string \<times> string) list" where
  "collect_nulls imageid_from_contentid all_nulls booklists =
    fold (\<lambda>booklist nulls.
            fold (\<lambda>b nulls.
                    if application_id b \<noteq> None \<and> all_nulls (contentID b) \<noteq> None
                    then nulls @ [(imageid_from_contentid (contentID b), contentID b)]
                    else nulls)
                 booklist nulls)
         booklists []"

text \<open>
  The loop \<open>while nulls[:100]: cursor.executemany(update_query, nulls[:100]); del nulls[:100]\<close>.
  It returns the argument lists of the \<open>executemany\<close> calls, in order, and \<open>nulls\<close> as the loop
  leaves it.
\<close>

function update_batches ::
    "(string \<times> string) list \<Rightarrow> (string \<times> string) list list
      \<Rightarrow> (string \<times> string) list list \<times> (string \<times> string) list" where
  "update_batches nulls issued =
    (if take 100 nulls \<noteq> [] then update_batches (drop 100 nulls) (issued @ [take 100 nulls])
     else (issued, nulls))"
  by pat_completeness auto
termination
  by (relation "measure (\<lambda>(nulls, issued). length nulls)") auto

declare update_batches.simps [simp del]

text \<open>
  The part of \<open>sync_booklists\<close> guarded by \<open>upload_covers\<close>: the \<open>executemany\<close> calls it
  issues and the queue it ends with.
\<close>

definition sync_booklists ::
    "bool \<Rightarrow> (string \<Rightarrow> string) \<Rightarrow> string list \<Rightarrow> book list list
      \<Rightarrow> (string \<times> string) list list \<times> (string \<times> string) list" where
  "sync_booklists upload_covers imageid_from_contentid rows booklists =
    (if upload_covers then
       update_batches (collect_nulls imageid_from_contentid (rows_needing_imageid rows) booklists) []
     else ([], []))"

section \<open>Sample inputs\<close>

definition legacy8 :: "pyval list" where
  "legacy8 = [PBool False, PBool True, PBool True, PBool False, PBool False, PBool False,
              PBool True, PStr ''/kepubs'']"

definition legacy10 :: "pyval list" where
  "legacy10 = legacy8 @ [PBool True, PInt 7]"

definition sample_book :: metadata where
  "sample_book = \<lparr>uuid = ''uuid-1'', title = ''Emma'', authors = [''Jane Austen'']\<rparr>"

definition fresh_driver :: "settings \<Rightarrow> driver" where
  "fresh_driver s = \<lparr>prefs = s, skip_renaming_files = {}\<rparr>"

definition open_container :: "string \<Rightarrow> container" where
  "open_container p = \<lparr>container_path = p, is_drm_encumbered = Returned False\<rparr>"

definition locked_container :: "string \<Rightarrow> container" where
  "locked_container p = \<lparr>container_path = p, is_drm_encumbered = Returned True\<rparr>"

text \<open>A world in which every collaborator succeeds, under the given interpreter version.\<close>

definition calm_world :: "bool \<Rightarrow> world" where
  "calm_world py2 =
    \<lparr>python2 = py2,
     new_container = (\<lambda>p. Returned (open_container p)),
     details_file = NoFile,
     version_str = ''3.2.9'',
     options_str = ''[]'',
     utcnow_ctime = ''Wed Apr  1 01:02:03 2020'',
     copy_file_to_container = None,
     run_modify_epub = None,
     base_modify_epub = (\<lambda>infile md cont. Returned True),
     copy_original = (\<lambda>infile dpath md. None),
     commit = (\<lambda>outpath. None)\<rparr>"


text \<open>The base class's \<open>_modify_epub\<close> returns \<open>False\<close>.\<close>

definition refusing_world :: world where
  "refusing_world = (calm_world True)\<lparr>base_modify_epub := (\<lambda>infile md cont. Returned False)\<rparr>"

text \<open>Python 3; the transformer raises a built-in exception, which has no \<open>message\<close>.\<close>

definition failing_world :: world where
  "failing_world = (calm_world False)\<lparr>run_modify_epub := Some (Exc OtherError None)\<rparr>"

definition skipping_driver :: driver where
  "skipping_driver = fresh_driver ((config_defaults [])\<lparr>skip_failed := PBool True\<rparr>)"

definition stale_info :: json_object where
  "stale_info = [''device_store_uuid'' \<mapsto> ''d1'', ''prefix'' \<mapsto> ''/mnt/'',
                 ''last_library_uuid'' \<mapsto> ''l1'', ''foo'' \<mapsto> ''bar'']"

text \<open>The details file holds a record without \<open>location_code\<close>.\<close>

definition stale_world :: "bool \<Rightarrow> world" where
  "stale_world py2 = (calm_world py2)\<lparr>details_file := Parsed stale_info\<rparr>"

definition sample_books :: "book list list" where
  "sample_books = [[\<lparr>application_id = None, contentID = ''file:///mnt/a.kepub.epub''\<rparr>]]"

section \<open>String lemmas\<close>

lemma endswith_iff: "endswith s suf \<longleftrightarrow> (\<exists>p. s = p @ suf)"
  unfolding endswith_def
proof
  assume h: "length suf \<le> length s \<and> drop (length s - length suf) s = suf"
  have "s = take (length s - length suf) s @ drop (length s - length suf) s" by simp
  with h have "s = take (length s - length suf) s @ suf" by simp
  then show "\<exists>p. s = p @ suf" ..
next
  assume "\<exists>p. s = p @ suf"
  then obtain p where "s = p @ suf" ..
  then show "length suf \<le> length s \<and> drop (length s - length suf) s = suf" by simp
qed

lemma endswith_append: "endswith (p @ suf) suf"
  by (auto simp: endswith_iff)

lemma epub_not_kepub: "\<not> endswith (stem @ EPUB_EXT) KEPUB_EXT"
proof
  assume "endswith (stem @ EPUB_EXT) KEPUB_EXT"
  then obtain p where "stem @ EPUB_EXT = p @ KEPUB_EXT" by (auto simp: endswith_iff)
  then have "stem @ ''.epub'' = (p @ ''.'') @ ''kepub''" by (simp add: EPUB_EXT_def KEPUB_EXT_def)
  then have "''.epub'' = ''kepub''" by (subst (asm) append_eq_append_conv) simp_all
  then show False by simp
qed

lemma slice_off_append: "slice_off (p @ suf) (length suf) = p"
  by (simp add: slice_off_def)

section \<open>Settings migration\<close>

lemmas opt_defs = opt_extra_features_def opt_upload_encumbered_def opt_skip_failed_def
  opt_hypnenate_def opt_smarten_punctuation_def opt_clean_markup_def opt_full_page_numbers_def
  opt_file_copy_dir_def opt_disable_hyphenation_def

lemma opt_values:
  "opt_extra_features = 0" "opt_upload_encumbered = 1" "opt_skip_failed = 2"
  "opt_hypnenate = 3" "opt_smarten_punctuation = 4" "opt_clean_markup = 5"
  "opt_full_page_numbers = 6" "opt_file_copy_dir = 7" "opt_disable_hyphenation = 8"
  by (simp_all add: opt_defs)

lemma count_options_8: "count_options = 8"
  by (simp add: count_options_def opt_values)

lemma try_assign_in_range: "i < length xs \<Longrightarrow> try_assign xs i f s = f (xs ! i) s"
  by (simp add: try_assign_def getitem_def)

lemma try_assign_out_of_range: "length xs \<le> i \<Longrightarrow> try_assign xs i f s = s"
  by (simp add: try_assign_def getitem_def)

text \<open>
  The claim C1 as it is written, with the threshold 9, fails on a list of 8 entries: the
  guard is \<open>len(...) >= count_options\<close> and \<open>count_options\<close> is 8 there, so the eight
  entries are assigned to their fields and the list is emptied.
\<close>

theorem migrate_short_counterexample:
  "length (extra_customization (config_defaults legacy8)) < 9 \<and>
   migrate_old_settings (config_defaults legacy8) \<noteq> config_defaults legacy8 \<and>
   extra_customization (migrate_old_settings (config_defaults legacy8)) = []"
  by (simp add: migrate_old_settings_def count_options_8 opt_defs try_assign_def getitem_def
      config_defaults_def legacy8_def)

text \<open>
  C1, amended: for every legacy list shorter than 8 entries, \<open>migrate_old_settings\<close>
  returns the settings object unchanged (no field is assigned, the list is not trimmed); the
  model is total, so nothing is raised.
\<close>

theorem migrate_below_threshold:
  "length (extra_customization s) < 8 \<Longrightarrow> migrate_old_settings s = s"
  by (simp add: migrate_old_settings_def count_options_8)

theorem migrate_below_threshold_witness:
  "length (extra_customization (config_defaults [PBool True, PBool False, PInt 3])) < 8 \<and>
   migrate_old_settings (config_defaults [PBool True, PBool False, PInt 3]) =
     config_defaults [PBool True, PBool False, PInt 3]"
  using migrate_below_threshold [of "config_defaults [PBool True, PBool False, PInt 3]"]
  by (simp add: config_defaults_def)

text \<open>
  The claim C2 as it is written fails on a list of 10 entries: the slice starts at
  \<open>count_options + 1 = 9\<close>, so one entry is left, not \<open>10 - 10 = 0\<close>.
\<close>

theorem migrate_trailing_counterexample:
  "length (extra_customization (config_defaults legacy10)) = 10 \<and>
   length (extra_customization (migrate_old_settings (config_defaults legacy10))) = 1 \<and>
   extra_customization (migrate_old_settings (config_defaults legacy10)) = [PInt 7]"
  by (simp add: migrate_old_settings_def count_options_8 opt_defs try_assign_def getitem_def
      config_defaults_def legacy8_def legacy10_def)

text \<open>
  C2, amended: for every legacy list of length \<open>n \<ge> 9\<close>, each of the nine fields is set
  from its fixed index (\<open>file_copy_dir\<close> to \<open>None\<close> when entry 7 is not a \<open>str\<close>), and the
  list that remains is the original without its first 9 entries: exactly \<open>n - 9\<close> of them.
\<close>

theorem migrate_populates_and_trims:
  assumes "9 \<le> length (extra_customization s)"
  shows "extra_features (migrate_old_settings s) = extra_customization s ! 0
       \<and> upload_encumbered (migrate_old_settings s) = extra_customization s ! 1
       \<and> skip_failed (migrate_old_settings s) = extra_customization s ! 2
       \<and> hyphenate (migrate_old_settings s) = extra_customization s ! 3
       \<and> smarten_punctuation (migrate_old_settings s) = extra_customization s ! 4
       \<and> clean_markup (migrate_old_settings s) = extra_customization s ! 5
       \<and> full_page_numbers (migrate_old_settings s) = extra_customization s ! 6
       \<and> file_copy_dir (migrate_old_settings s) =
            (if isinstance_str (extra_customization s ! 7) then extra_customization s ! 7 else PNone)
       \<and> disable_hyphenation (migrate_old_settings s) = extra_customization s ! 8
       \<and> extra_customization (migrate_old_settings s) = drop 9 (extra_customization s)
       \<and> length (extra_customization (migrate_old_settings s)) = length (extra_customization s) - 9"
proof -
  let ?ec = "extra_customization s"
  from assms have len: "opt_extra_features < length ?ec" "opt_upload_encumbered < length ?ec"
    "opt_skip_failed < length ?ec" "opt_hypnenate < length ?ec"
    "opt_smarten_punctuation < length ?ec" "opt_clean_markup < length ?ec"
    "opt_full_page_numbers < length ?ec" "opt_file_copy_dir < length ?ec"
    "opt_disable_hyphenation < length ?ec"
    by (auto simp add: opt_values)
  from assms have go: "count_options \<le> length ?ec"
    by (simp add: count_options_8)
  have core: "migrate_old_settings s =
      s\<lparr>extra_features := ?ec ! opt_extra_features,
        upload_encumbered := ?ec ! opt_upload_encumbered,
        skip_failed := ?ec ! opt_skip_failed,
        hyphenate := ?ec ! opt_hypnenate,
        smarten_punctuation := ?ec ! opt_smarten_punctuation,
        clean_markup := ?ec ! opt_clean_markup,
        file_copy_dir := (if isinstance_str (?ec ! opt_file_copy_dir)
                          then ?ec ! opt_file_copy_dir else PNone),
        full_page_numbers := ?ec ! opt_full_page_numbers,
        disable_hyphenation := ?ec ! opt_disable_hyphenation,
        extra_customization := drop (count_options + 1) ?ec\<rparr>"
    by (simp add: migrate_old_settings_def Let_def try_assign_in_range len go)
  show ?thesis
    unfolding core by (simp add: opt_values count_options_8)
qed

theorem migrate_populates_and_trims_witness:
  "9 \<le> length (extra_customization (config_defaults legacy10)) \<and>
   extra_features (migrate_old_settings (config_defaults legacy10)) = PBool False \<and>
   full_page_numbers (migrate_old_settings (config_defaults legacy10)) = PBool True \<and>
   file_copy_dir (migrate_old_settings (config_defaults legacy10)) = PStr ''/kepubs'' \<and>
   disable_hyphenation (migrate_old_settings (config_defaults legacy10)) = PBool True \<and>
   extra_customization (migrate_old_settings (config_defaults legacy10)) = [PInt 7]"
  using migrate_populates_and_trims [of "config_defaults legacy10"]
  by (simp add: config_defaults_def legacy8_def legacy10_def)

section \<open>File names on the device: properties\<close>

lemma kepub_epub_not_kepub: "\<not> endswith (stem @ KEPUB_EXT @ EPUB_EXT) KEPUB_EXT"
  using epub_not_kepub [of "stem @ KEPUB_EXT"] by simp

lemma endswith_double: "endswith (stem @ KEPUB_EXT @ EPUB_EXT) EPUB_EXT"
  using endswith_append [of "stem @ KEPUB_EXT" EPUB_EXT] by simp

lemma slice_off_double: "slice_off (stem @ KEPUB_EXT @ EPUB_EXT) (length EPUB_EXT) = stem @ KEPUB_EXT"
  using slice_off_append [of "stem @ KEPUB_EXT" EPUB_EXT] by simp

text \<open>
  The claim C3 as it is written fails for a book that is not in \<open>skip_renaming_files\<close>:
  \<open>book.kepub.epub\<close> does not end in \<open>.kepub\<close> but does end in \<open>.epub\<close>, so the second
  branch splices the marker in once more.
\<close>

theorem filename_double_extension_counterexample:
  "endswith ''book.kepub.epub'' (KEPUB_EXT @ EPUB_EXT) \<and>
   truthy (extra_features (prefs (fresh_driver (config_defaults [])))) \<and>
   filename_callback (fresh_driver (config_defaults [])) ''book.kepub.epub'' sample_book
     = ''book.kepub.kepub.epub''"
  by (simp add: filename_callback_def endswith_def slice_off_def EPUB_EXT_def KEPUB_EXT_def
      fresh_driver_def config_defaults_def sample_book_def)

text \<open>
  C3, amended: with \<open>extra_features\<close> set, a path that already ends in \<open>.kepub.epub\<close> is
  returned unchanged for every book whose id is in \<open>skip_renaming_files\<close>; for any other
  book the marker is spliced in again before the final \<open>.epub\<close>.
\<close>

theorem filename_double_extension:
  assumes "truthy (extra_features (prefs self))"
  shows "filename_callback self (stem @ KEPUB_EXT @ EPUB_EXT) mi =
          (if uuid mi \<in> skip_renaming_files self then stem @ KEPUB_EXT @ EPUB_EXT
           else stem @ KEPUB_EXT @ KEPUB_EXT @ EPUB_EXT)"
  using assms
  by (simp add: filename_callback_def kepub_epub_not_kepub endswith_double slice_off_double)

theorem filename_double_extension_witness:
  "truthy (extra_features (prefs \<lparr>prefs = config_defaults [], skip_renaming_files = {''uuid-1''}\<rparr>)) \<and>
   filename_callback (\<lparr>prefs = config_defaults [], skip_renaming_files = {''uuid-1''}\<rparr>)
     ''book.kepub.epub'' sample_book = ''book.kepub.epub''"
  using filename_double_extension
    [where self = "\<lparr>prefs = config_defaults [], skip_renaming_files = {''uuid-1''}\<rparr>"
       and mi = sample_book and stem = "''book''"]
  by (simp add: fresh_driver_def config_defaults_def sample_book_def EPUB_EXT_def KEPUB_EXT_def)

text \<open>
  C9: for a book id that is not in \<open>skip_renaming_files\<close>, with \<open>extra_features\<close> set, a
  path ending in \<open>.epub\<close> gets the marker \<open>.kepub\<close> spliced in before that extension
  (\<open>book.epub\<close> becomes \<open>book.kepub.epub\<close>); without \<open>extra_features\<close> every path is
  returned unchanged.
\<close>

theorem filename_splices_marker:
  "(truthy (extra_features (prefs self)) \<and> uuid mi \<notin> skip_renaming_files self \<longrightarrow>
      filename_callback self (stem @ EPUB_EXT) mi = stem @ KEPUB_EXT @ EPUB_EXT) \<and>
   (\<not> truthy (extra_features (prefs self)) \<longrightarrow> filename_callback self path mi = path)"
  by (simp add: filename_callback_def epub_not_kepub endswith_append slice_off_append)

theorem filename_splices_marker_witness:
  "filename_callback (fresh_driver (config_defaults [])) ''book.epub'' sample_book = ''book.kepub.epub'' \<and>
   filename_callback (fresh_driver ((config_defaults [])\<lparr>extra_features := PBool False\<rparr>))
     ''book.epub'' sample_book = ''book.epub''"
  using filename_splices_marker [where self = "fresh_driver (config_defaults [])"
      and mi = sample_book and stem = "''book''" and path = "''x''"]
    filename_splices_marker
      [where self = "fresh_driver ((config_defaults [])\<lparr>extra_features := PBool False\<rparr>)"
        and mi = sample_book and stem = "''book''" and path = "''book.epub''"]
  by (simp add: fresh_driver_def config_defaults_def sample_book_def EPUB_EXT_def KEPUB_EXT_def)

section \<open>Image ids: the queue\<close>

lemma rows_fold_absent:
  "fold (\<lambda>row d. d(row \<mapsto> v)) rows m c = None \<longleftrightarrow> c \<notin> set rows \<and> m c = None"
  by (induction rows arbitrary: m) auto

lemma rows_needing_imageid_absent: "rows_needing_imageid rows c = None \<longleftrightarrow> c \<notin> set rows"
  by (simp add: rows_needing_imageid_def rows_fold_absent)

lemma rows_needing_imageid_present:
  "(\<exists>y. rows_needing_imageid rows c = Some y) \<longleftrightarrow> c \<in> set rows"
  using rows_needing_imageid_absent [of rows c] by auto

lemma inner_fold:
  "fold (\<lambda>b nulls. if P b then nulls @ [f b] else nulls) bl acc = acc @ map f (filter P bl)"
  by (induction bl arbitrary: acc) auto

lemma outer_fold:
  "fold (\<lambda>bl nulls. fold (\<lambda>b nulls. if P b then nulls @ [f b] else nulls) bl nulls) bls acc
     = acc @ map f (filter P (concat bls))"
  by (induction bls arbitrary: acc) (auto simp: inner_fold)

text \<open>
  The claim C5 as it is written fails for a book whose \<open>application_id\<close> is \<open>None\<close>: its
  content id is among the rows lacking an image id, and nothing is queued for it.
\<close>

theorem collect_nulls_counterexample:
  "rows_needing_imageid [''file:///mnt/a.kepub.epub''] ''file:///mnt/a.kepub.epub'' \<noteq> None \<and>
   collect_nulls (\<lambda>c. c) (rows_needing_imageid [''file:///mnt/a.kepub.epub'']) sample_books = []"
  by (simp add: collect_nulls_def rows_needing_imageid_def sample_books_def)

text \<open>
  C5, amended: the queue holds, in the order of the booklists, the pair
  \<open>(imageid_from_contentid(contentID), contentID)\<close> of every book whose \<open>application_id\<close> is
  not \<open>None\<close> and whose content id is among the rows lacking an image id, and nothing else;
  the image id is a function of the content id alone.
\<close>

theorem collect_nulls_queue:
  "collect_nulls imageid_from_contentid (rows_needing_imageid rows) booklists =
     map (\<lambda>b. (imageid_from_contentid (contentID b), contentID b))
       (filter (\<lambda>b. application_id b \<noteq> None \<and> contentID b \<in> set rows) (concat booklists))"
  unfolding collect_nulls_def
  by (simp add: outer_fold rows_needing_imageid_present)

section \<open>Image ids: batched updates\<close>

lemma update_batches_empty: "update_batches [] issued = (issued, [])"
  by (subst update_batches.simps) simp

lemma update_batches_step:
  "nulls \<noteq> [] \<Longrightarrow>
   update_batches nulls issued = update_batches (drop 100 nulls) (issued @ [take 100 nulls])"
  by (subst update_batches.simps) simp

text \<open>
  Whatever the queue holds, the loop ends with it empty, and the batches issued are the
  queue cut into consecutive pieces.
\<close>

lemma update_batches_drains:
  "snd (update_batches nulls issued) = [] \<and>
   concat (fst (update_batches nulls issued)) = concat issued @ nulls"
proof (induction nulls issued rule: update_batches.induct)
  case (1 nulls issued)
  show ?case
  proof (cases "nulls = []")
    case True
    then show ?thesis by (simp add: update_batches_empty)
  next
    case False
    then have more: "take 100 nulls \<noteq> []" by simp
    have "update_batches nulls issued =
          update_batches (drop 100 nulls) (issued @ [take 100 nulls])"
      using False by (rule update_batches_step)
    with "1.IH" [OF more] show ?thesis by simp
  qed
qed

lemma sync_booklists_drains:
  "snd (sync_booklists upload_covers imageid_from_contentid rows booklists) = []"
  by (simp add: sync_booklists_def update_batches_drains)

text \<open>
  C8: with 250 pairs queued, the loop issues exactly three \<open>executemany\<close> calls, on the
  first 100 pairs, the next 100 and the last 50, each batch leaving the queue as it is
  applied, and the queue is empty at the end.  The batch size is the literal 100 of the
  slices \<open>nulls[:100]\<close>.
\<close>

theorem update_batches_250:
  assumes "length nulls = 250"
  shows "fst (update_batches nulls []) = [take 100 nulls, take 100 (drop 100 nulls), drop 200 nulls]
       \<and> map length (fst (update_batches nulls [])) = [100, 100, 50]
       \<and> snd (update_batches nulls []) = []"
proof -
  have n0: "nulls \<noteq> []" using assms by auto
  have n1: "drop 100 nulls \<noteq> []" using assms by simp
  have n2: "drop 200 nulls \<noteq> []" using assms by simp
  have n3: "drop 300 nulls = []" using assms by simp
  have t: "take 100 (drop 200 nulls) = drop 200 nulls" using assms by simp
  have s1: "update_batches nulls [] = update_batches (drop 100 nulls) [take 100 nulls]"
    using update_batches_step [OF n0, of "[]"] by simp
  have s2: "update_batches (drop 100 nulls) [take 100 nulls] =
            update_batches (drop 200 nulls) [take 100 nulls, take 100 (drop 100 nulls)]"
    using update_batches_step [OF n1, of "[take 100 nulls]"] by simp
  have s3: "update_batches (drop 200 nulls) [take 100 nulls, take 100 (drop 100 nulls)] =
            update_batches (drop 300 nulls)
              [take 100 nulls, take 100 (drop 100 nulls), drop 200 nulls]"
    using update_batches_step [OF n2, of "[take 100 nulls, take 100 (drop 100 nulls)]"] t
    by simp
  have all: "update_batches nulls [] =
             ([take 100 nulls, take 100 (drop 100 nulls), drop 200 nulls], [])"
    by (simp only: s1 s2 s3 n3 update_batches_empty)
  show ?thesis
    unfolding all using assms by simp
qed

theorem update_batches_250_witness:
  "length (replicate 250 (''img'', ''content'')) = 250 \<and>
   map length (fst (update_batches (replicate 250 (''img'', ''content'')) [])) = [100, 100, 50] \<and>
   snd (update_batches (replicate 250 (''img'', ''content'')) []) = []"
  using update_batches_250 [of "replicate 250 (''img'', ''content'')"] by simp

section \<open>Preparing a book: properties\<close>

lemma probe_when_signalled:
  "drm_signalled w infile cont \<Longrightarrow> probe_drm w infile cont = Probed cont True"
  by (auto simp: drm_signalled_def probe_drm_def split: option.splits outcome.splits)

lemma try_body_calls:
  "try_body w self infile = (x, cs) \<Longrightarrow> CallCommit p \<notin> set cs \<and> CallBase q c \<notin> set cs"
  by (auto simp: try_body_def Let_def split: outcome.splits option.splits)

lemma dpath_test:
  "((if truthy v then v else PStr []) \<noteq> PStr []) = truthy v"
  by (cases v) auto

lemma finish_retval:
  "retval (finish w self infile md cont cs) =
    (case copy_step w self infile md of
       Some e \<Rightarrow> Raised e
     | None \<Rightarrow>
         (case base_modify_epub w infile md cont of
            Raised e \<Rightarrow> Raised e
          | Returned r \<Rightarrow>
              if r then (case commit w infile of Some e \<Rightarrow> Raised e | None \<Rightarrow> Returned True)
              else Returned False))"
  by (simp add: finish_def copy_step_def Let_def dpath_test split: option.splits outcome.splits)

lemma finish_commit:
  assumes "CallCommit infile \<notin> set cs"
  shows "CallCommit infile \<in> set (calls (finish w self infile md cont cs)) \<longleftrightarrow>
         copy_step w self infile md = None \<and> base_modify_epub w infile md cont = Returned True"
  using assms
  by (auto simp: finish_def copy_step_def Let_def dpath_test split: option.splits outcome.splits)

lemma transform_path:
  assumes "endswith infile EPUB_EXT" and "probe_drm w infile cont = Probed cont' False"
    and "try_body w self infile = (None, cs)"
  shows "modify_epub_ext w self infile md cont = finish w self infile md cont' cs"
  using assms by (simp add: modify_epub_ext_def)

text \<open>
  The claim C4 as it is written fails when the base class's \<open>_modify_epub\<close> returns
  \<open>False\<close> after a transformation that succeeded: \<open>container.commit\<close> sits under
  \<open>if retval:\<close> and is not called.
\<close>

theorem commit_not_invoked_counterexample:
  "endswith ''book.epub'' EPUB_EXT \<and>
   \<not> drm_signalled refusing_world ''book.epub'' None \<and>
   fst (try_body refusing_world (fresh_driver (config_defaults [])) ''book.epub'') = None \<and>
   retval (modify_epub_ext refusing_world (fresh_driver (config_defaults [])) ''book.epub''
             sample_book None) = Returned False \<and>
   CallCommit ''book.epub'' \<notin>
     set (calls (modify_epub_ext refusing_world (fresh_driver (config_defaults [])) ''book.epub''
                   sample_book None))"
  by (simp add: modify_epub_ext_def probe_drm_def drm_signalled_def try_body_def driver_info_def
      finish_def refusing_world_def calm_world_def fresh_driver_def config_defaults_def
      endswith_def EPUB_EXT_def KEPUB_EXT_def Let_def)

text \<open>
  C4, amended: when injection and transformer have raised nothing, \<open>_modify_epub\<close> makes the
  optional copy and calls the base class's \<open>_modify_epub\<close>; an exception of either
  propagates.  The value returned is the base class's: \<open>False\<close> without any commit, or
  \<open>True\<close> after \<open>container.commit(outpath=infile)\<close> has returned; a commit that raises
  propagates its exception.  The commit is called exactly when the base class returned
  \<open>True\<close>.
\<close>

theorem transform_path_result:
  assumes "endswith infile EPUB_EXT" and "probe_drm w infile cont = Probed cont' False"
    and "try_body w self infile = (None, cs)"
  shows "retval (modify_epub_ext w self infile md cont) =
          (case copy_step w self infile md of
             Some e \<Rightarrow> Raised e
           | None \<Rightarrow>
               (case base_modify_epub w infile md cont' of
                  Raised e \<Rightarrow> Raised e
                | Returned r \<Rightarrow>
                    if r then (case commit w infile of Some e \<Rightarrow> Raised e | None \<Rightarrow> Returned True)
                    else Returned False))
       \<and> (CallCommit infile \<in> set (calls (modify_epub_ext w self infile md cont)) \<longleftrightarrow>
            copy_step w self infile md = None \<and> base_modify_epub w infile md cont' = Returned True)"
proof -
  have eq: "modify_epub_ext w self infile md cont = finish w self infile md cont' cs"
    using assms by (rule transform_path)
  have no_commit: "CallCommit infile \<notin> set cs"
    using try_body_calls [OF assms(3)] by simp
  show ?thesis
    unfolding eq using finish_retval finish_commit [OF no_commit] by simp
qed

theorem transform_path_result_witness:
  "endswith ''book.epub'' EPUB_EXT \<and>
   probe_drm (calm_world True) ''book.epub'' None = Probed (Some (open_container ''book.epub'')) False \<and>
   fst (try_body (calm_world True) (fresh_driver (config_defaults [])) ''book.epub'') = None \<and>
   retval (modify_epub_ext (calm_world True) (fresh_driver (config_defaults [])) ''book.epub''
             sample_book None) = Returned True \<and>
   CallCommit ''book.epub'' \<in>
     set (calls (modify_epub_ext (calm_world True) (fresh_driver (config_defaults [])) ''book.epub''
                   sample_book None))"
proof -
  let ?w = "calm_world True" and ?d = "fresh_driver (config_defaults [])"
  have a: "endswith ''book.epub'' EPUB_EXT"
    by (simp add: endswith_def EPUB_EXT_def)
  have b: "probe_drm ?w ''book.epub'' None = Probed (Some (open_container ''book.epub'')) False"
    by (simp add: probe_drm_def calm_world_def)
  have c: "try_body ?w ?d ''book.epub'' = (None, snd (try_body ?w ?d ''book.epub''))"
    by (simp add: try_body_def driver_info_def calm_world_def Let_def)
  have d: "copy_step ?w ?d ''book.epub'' sample_book = None"
    by (simp add: copy_step_def calm_world_def)
  have e: "base_modify_epub ?w ''book.epub'' sample_book (Some (open_container ''book.epub'')) = Returned True"
    "commit ?w ''book.epub'' = None"
    by (simp_all add: calm_world_def)
  have f: "fst (try_body ?w ?d ''book.epub'') = None"
    using c by (metis fst_conv)
  show ?thesis
    using transform_path_result [OF a b c, of sample_book] a b d e f by simp
qed

text \<open>
  What the probe detects is encumbered, and on an \<open>.epub\<close> file the probe's finding is
  acted on as C6 says: the id joins \<open>skip_renaming_files\<close>; without \<open>upload_encumbered\<close>
  \<open>False\<close> is returned and nothing is called, with it the base class's \<open>_modify_epub\<close> is
  the only call and its value is returned.
\<close>

lemma signalled_is_encumbered:
  "drm_signalled w infile cont \<Longrightarrow> drm_encumbered w infile cont"
  by (auto simp: drm_signalled_def drm_encumbered_def reports_encumbered_def
      split: option.splits outcome.splits)

lemma encumbered_epub_gate:
  assumes "endswith infile EPUB_EXT" and "drm_signalled w infile cont"
  shows "modify_epub_ext w self infile md cont =
          (if truthy (upload_encumbered (prefs self)) then
             \<lparr>retval = base_modify_epub w infile md cont,
              skip_set = insert (uuid md) (skip_renaming_files self),
              calls = [CallBase infile cont]\<rparr>
           else
             \<lparr>retval = Returned False,
              skip_set = insert (uuid md) (skip_renaming_files self),
              calls = []\<rparr>)"
  using assms(1) probe_when_signalled [OF assms(2)]
  by (simp add: modify_epub_ext_def)

lemma encumbered_epub_gate_passed_in:
  "retval (modify_epub_ext (calm_world True) (fresh_driver (config_defaults [])) ''book.epub''
             sample_book (Some (locked_container ''book.epub''))) = Returned False \<and>
   calls (modify_epub_ext (calm_world True) (fresh_driver (config_defaults [])) ''book.epub''
             sample_book (Some (locked_container ''book.epub''))) = [] \<and>
   uuid sample_book \<in>
     skip_set (modify_epub_ext (calm_world True) (fresh_driver (config_defaults [])) ''book.epub''
                 sample_book (Some (locked_container ''book.epub'')))"
proof -
  have a: "endswith ''book.epub'' EPUB_EXT"
    by (simp add: endswith_def EPUB_EXT_def)
  have b: "drm_signalled (calm_world True) ''book.epub'' (Some (locked_container ''book.epub''))"
    by (simp add: drm_signalled_def locked_container_def)
  have c: "\<not> truthy (upload_encumbered (prefs (fresh_driver (config_defaults []))))"
    by (simp add: fresh_driver_def config_defaults_def)
  show ?thesis
    using encumbered_epub_gate [OF a b, of "fresh_driver (config_defaults [])" sample_book] c
    by simp
qed

text \<open>
  A container the driver constructs itself is never asked: whatever it reports, the probe
  answers "not encumbered".
\<close>

lemma constructed_container_unasked:
  "new_container w infile = Returned c \<Longrightarrow> probe_drm w infile None = Probed (Some c) False"
  by (simp add: probe_drm_def)


text \<open>
  The failure policy of the handler, for an exception that has a \<open>message\<close> attribute and
  for one that has none.
\<close>

lemma try_path:
  assumes "endswith infile EPUB_EXT" and "probe_drm w infile cont = Probed cont' False"
    and "try_body w self infile = (Some e, cs)"
  shows "modify_epub_ext w self infile md cont = handler w self infile md cont' e cs"
  using assms by (simp add: modify_epub_ext_def)

lemma failure_policy_with_message:
  assumes "endswith infile EPUB_EXT" and "probe_drm w infile cont = Probed cont' False"
    and "try_body w self infile = (Some e, cs)" and "message e = Some m"
  shows "modify_epub_ext w self infile md cont =
          (if \<not> truthy (skip_failed (prefs self)) then
             \<lparr>retval = Raised e, skip_set = skip_renaming_files self, calls = cs\<rparr>
           else
             \<lparr>retval = base_modify_epub w infile md cont',
              skip_set = insert (uuid md) (skip_renaming_files self),
              calls = cs @ [CallBase infile cont']\<rparr>)"
  unfolding try_path [OF assms(1-3)] using assms(4) by (simp add: handler_def)

lemma failure_without_message:
  assumes "endswith infile EPUB_EXT" and "probe_drm w infile cont = Probed cont' False"
    and "try_body w self infile = (Some e, cs)" and "message e = None"
  shows "modify_epub_ext w self infile md cont =
          \<lparr>retval = Raised (builtin_exc (python2 w) AttributeError ''message''),
           skip_set = skip_renaming_files self, calls = cs\<rparr>"
  unfolding try_path [OF assms(1-3)] using assms(4) by (simp add: handler_def)

text \<open>
  C7 at a failing input: under Python 3 the transformer raises a built-in exception and
  \<open>skip_failed\<close> is set.  The handler's log line reads \<open>e.message\<close> and raises
  \<open>AttributeError\<close> before \<open>skip_failed\<close> is looked at: the id is not added to
  \<open>skip_renaming_files\<close> and the base class is not called.
\<close>

theorem skip_failed_not_honoured:
  "truthy (skip_failed (prefs skipping_driver)) \<and>
   fst (try_body failing_world skipping_driver ''book.epub'') = Some (Exc OtherError None) \<and>
   retval (modify_epub_ext failing_world skipping_driver ''book.epub'' sample_book None)
     = Raised (Exc AttributeError None) \<and>
   uuid sample_book \<notin>
     skip_set (modify_epub_ext failing_world skipping_driver ''book.epub'' sample_book None) \<and>
   CallBase ''book.epub'' (Some (open_container ''book.epub'')) \<notin>
     set (calls (modify_epub_ext failing_world skipping_driver ''book.epub'' sample_book None))"
  by (simp add: modify_epub_ext_def probe_drm_def try_body_def driver_info_def handler_def
      builtin_exc_def failing_world_def skipping_driver_def calm_world_def fresh_driver_def
      config_defaults_def endswith_def EPUB_EXT_def KEPUB_EXT_def Let_def)

text \<open>A record lacking one of the four keys makes the deletions raise \<open>KeyError\<close>.\<close>

lemma del_props_missing:
  "p \<in> set ps \<Longrightarrow> d p = None \<Longrightarrow>
   \<exists>q \<in> set ps. del_props py2 ps d = Raised (builtin_exc py2 KeyError q)"
proof (induction ps arbitrary: d)
  case Nil
  then show ?case by simp
next
  case (Cons a ps)
  show ?case
  proof (cases "d a")
    case None
    then show ?thesis by simp
  next
    case (Some v)
    with Cons.prems have in_rest: "p \<in> set ps" and still: "(d(a := None)) p = None"
      by auto
    have "\<exists>q \<in> set ps. del_props py2 ps (d(a := None)) = Raised (builtin_exc py2 KeyError q)"
      using in_rest still by (rule Cons.IH)
    with Some show ?thesis by auto
  qed
qed

lemma driver_info_missing_key:
  assumes "details_file w = Parsed d" and "p \<in> set transient_props" and "d p = None"
  shows "\<exists>q \<in> set transient_props. driver_info w = Raised (builtin_exc (python2 w) KeyError q)"
proof -
  have "\<exists>q \<in> set transient_props.
          del_props (python2 w) transient_props d = Raised (builtin_exc (python2 w) KeyError q)"
    using assms(2) assms(3) by (rule del_props_missing)
  then show ?thesis
    using assms(1) by (auto simp: driver_info_def)
qed

text \<open>
  Under Python 2 the \<open>KeyError\<close> has a \<open>message\<close>, and the handler does what C10 says.
\<close>

lemma missing_key_python2:
  "driver_info (stale_world True) = Raised (Exc KeyError (Some ''location_code'')) \<and>
   retval (modify_epub_ext (stale_world True) skipping_driver ''book.epub'' sample_book None)
     = Returned True \<and>
   uuid sample_book \<in>
     skip_set (modify_epub_ext (stale_world True) skipping_driver ''book.epub'' sample_book None) \<and>
   retval (modify_epub_ext (stale_world True) (fresh_driver (config_defaults [])) ''book.epub''
             sample_book None) = Raised (Exc KeyError (Some ''location_code''))"
  by (simp add: modify_epub_ext_def probe_drm_def try_body_def driver_info_def handler_def
      builtin_exc_def stale_world_def stale_info_def transient_props_def skipping_driver_def
      calm_world_def fresh_driver_def
      config_defaults_def endswith_def EPUB_EXT_def KEPUB_EXT_def Let_def)

text \<open>
  C10 at a failing input: under Python 3, the details file lacks \<open>location_code\<close> and
  \<open>skip_failed\<close> is set.  The deletions raise \<open>KeyError\<close>, which has no \<open>message\<close>; the
  handler raises \<open>AttributeError\<close> and the book is not passed through.
\<close>

theorem missing_key_not_absorbed:
  "stale_info ''location_code'' = None \<and>
   driver_info (stale_world False) = Raised (Exc KeyError None) \<and>
   truthy (skip_failed (prefs skipping_driver)) \<and>
   retval (modify_epub_ext (stale_world False) skipping_driver ''book.epub'' sample_book None)
     = Raised (Exc AttributeError None) \<and>
   uuid sample_book \<notin>
     skip_set (modify_epub_ext (stale_world False) skipping_driver ''book.epub'' sample_book None) \<and>
   calls (modify_epub_ext (stale_world False) skipping_driver ''book.epub'' sample_book None) = []"
  by (simp add: modify_epub_ext_def probe_drm_def try_body_def driver_info_def handler_def
      builtin_exc_def stale_world_def stale_info_def transient_props_def skipping_driver_def
      calm_world_def fresh_driver_def
      config_defaults_def endswith_def EPUB_EXT_def KEPUB_EXT_def Let_def)

end
